theory Spec2Isabelle
  imports Complex_Main "HOL-Library.Char_ord" "HOL-Library.List_Lexorder"
    "HOL-Library.Product_Lexorder"
begin

section \<open>Tabular data\<close>

text \<open>
  The program of \<^verbatim>\<open>src/handle_missing_values.py\<close> and
  \<^verbatim>\<open>steps/handle_missing_values_step.py\<close> works on pandas data frames. A frame is
  an index (one label per row) and an ordered list of named columns. A column has a
  dtype: a number dtype, whose cells are floats, or the object dtype, whose cells are
  arbitrary scalars (text or numbers). A cell may be absent (NaN, \<open>None\<close> below).

  Floats are idealised as exact rationals: rounding, infinities and overflow of float64
  are not modelled. Only the \<open>mean\<close> and \<open>median\<close> statistics compute with them.
\<close>

datatype scalar = Num rat | Str string

datatype column = NumCol "rat option list" | ObjCol "scalar option list"

record frame =
  index :: "int list"
  columns :: "(string \<times> column) list"

datatype error = ValueError string | TypeError string | KeyError string

fun cells :: "column \<Rightarrow> scalar option list" where
  "cells (NumCol xs) = map (map_option Num) xs"
| "cells (ObjCol ys) = ys"

fun is_number :: "column \<Rightarrow> bool" where
  "is_number (NumCol xs) = True"
| "is_number (ObjCol ys) = False"

definition column_names :: "frame \<Rightarrow> string list" where
  "column_names df = map fst (columns df)"


text \<open>The row at position \<open>i\<close>: its label and its cells, in column order.\<close>

definition row_at :: "frame \<Rightarrow> nat \<Rightarrow> int \<times> scalar option list" where
  "row_at df i = (index df ! i, map (\<lambda>(n, c). cells c ! i) (columns df))"


definition on_success :: "error + 'a \<Rightarrow> ('a \<Rightarrow> error + 'b) \<Rightarrow> error + 'b" where
  "on_success r f = (case r of Inl e \<Rightarrow> Inl e | Inr x \<Rightarrow> f x)"

section \<open>The pandas operations the program calls\<close>

subsection \<open>\<^verbatim>\<open>DataFrame.copy\<close>, \<^verbatim>\<open>select_dtypes\<close>, \<^verbatim>\<open>df[names]\<close>\<close>

definition copy :: "frame \<Rightarrow> frame" where
  "copy df = df"

text \<open>\<^verbatim>\<open>df.select_dtypes(include='number')\<close>: the columns of a number dtype.\<close>

definition select_dtypes_number :: "frame \<Rightarrow> frame" where
  "select_dtypes_number df = df\<lparr>columns := filter (\<lambda>(n, c). is_number c) (columns df)\<rparr>"

text \<open>\<^verbatim>\<open>df[names]\<close>: the named columns, in the order asked; an unknown name raises.\<close>

definition getitem :: "frame \<Rightarrow> string list \<Rightarrow> error + frame" where
  "getitem df names =
     (case filter (\<lambda>k. k \<notin> set (column_names df)) names of
        k # _ \<Rightarrow> Inl (KeyError k)
      | [] \<Rightarrow> Inr (df\<lparr>columns :=
                 concat (map (\<lambda>k. filter (\<lambda>(n, c). n = k) (columns df)) names)\<rparr>))"

subsection \<open>\<^verbatim>\<open>DataFrame.dropna\<close>\<close>

definition notna_count :: "column \<Rightarrow> nat" where
  "notna_count c = length (filter (\<lambda>x. x \<noteq> None) (cells c))"

definition row_notna_count :: "frame \<Rightarrow> nat \<Rightarrow> nat" where
  "row_notna_count df i = length (filter (\<lambda>(n, c). cells c ! i \<noteq> None) (columns df))"

fun take_cells :: "nat list \<Rightarrow> column \<Rightarrow> column" where
  "take_cells keep (NumCol xs) = NumCol (map ((!) xs) keep)"
| "take_cells keep (ObjCol ys) = ObjCol (map ((!) ys) keep)"

text \<open>The rows at the positions \<open>keep\<close>, labels kept.\<close>

definition take_rows :: "nat list \<Rightarrow> frame \<Rightarrow> frame" where
  "take_rows keep df =
     \<lparr>index = map ((!) (index df)) keep,
      columns = map (\<lambda>(n, c). (n, take_cells keep c)) (columns df)\<rparr>"

text \<open>
  \<^verbatim>\<open>df.dropna(axis=axis, thresh=thresh)\<close>, the other arguments at their defaults
  (\<^verbatim>\<open>how='any'\<close>). The threshold is optional in pandas' documented interface
  (\<^verbatim>\<open>thresh : int, optional\<close>): without one (\<open>None\<close>, as the strategy's constructor
  leaves it) a row or column is kept when none of its cells is absent; with a threshold
  \<open>k\<close> it is kept when it has at least \<open>k\<close> non-absent cells. Axis 0 drops rows, axis 1
  drops columns, any other axis number raises.
\<close>

definition dropna :: "frame \<Rightarrow> int \<Rightarrow> int option \<Rightarrow> error + frame" where
  "dropna df ax th =
     (if ax = 0 then
        Inr (take_rows
          (filter (\<lambda>i. case th of
                          None \<Rightarrow> list_all (\<lambda>(n, c). cells c ! i \<noteq> None) (columns df)
                        | Some k \<Rightarrow> k \<le> int (row_notna_count df i))
                  [0..<length (index df)]) df)
      else if ax = 1 then
        Inr (df\<lparr>columns :=
          filter (\<lambda>(n, c). case th of
                              None \<Rightarrow> list_all (\<lambda>x. x \<noteq> None) (cells c)
                            | Some k \<Rightarrow> k \<le> int (notna_count c))
                 (columns df)\<rparr>)
      else Inl (ValueError ''No axis named for object type DataFrame''))"

subsection \<open>Column statistics\<close>

definition present :: "'a option list \<Rightarrow> 'a list" where
  "present xs = List.map_filter id xs"

fun is_num_cell :: "scalar option \<Rightarrow> bool" where
  "is_num_cell None = True"
| "is_num_cell (Some (Num r)) = True"
| "is_num_cell (Some (Str s)) = False"

fun num_of :: "scalar option \<Rightarrow> rat option" where
  "num_of (Some (Num r)) = Some r"
| "num_of (Some (Str s)) = None"
| "num_of None = None"


text \<open>
  The non-absent values of a column as numbers. Text in an object column cannot be
  summed: pandas raises.
\<close>

fun numeric_values :: "column \<Rightarrow> error + rat list" where
  "numeric_values (NumCol xs) = Inr (present xs)"
| "numeric_values (ObjCol ys) =
     (if list_all is_num_cell ys then Inr (present (map num_of ys))
      else Inl (TypeError ''could not convert string to numeric''))"

text \<open>The statistic of no value at all is NaN, the absent cell.\<close>

definition nanmean :: "rat list \<Rightarrow> rat option" where
  "nanmean vs = (if vs = [] then None else Some (sum_list vs / of_nat (length vs)))"

definition nanmedian :: "rat list \<Rightarrow> rat option" where
  "nanmedian vs =
     (let s = sort vs; n = length s in
      if n = 0 then None
      else if odd n then Some (s ! (n div 2))
      else Some ((s ! (n div 2 - 1) + s ! (n div 2)) / 2))"

text \<open>
  A reduction of a frame (\<^verbatim>\<open>df.mean()\<close>, \<^verbatim>\<open>df.median()\<close>) is a series: one
  value per column, labelled with the column's name.
\<close>

type_synonym series = "(string \<times> rat option) list"

fun reduce_columns :: "(rat list \<Rightarrow> rat option) \<Rightarrow> (string \<times> column) list \<Rightarrow> error + series" where
  "reduce_columns f [] = Inr []"
| "reduce_columns f ((n, c) # cs) =
     on_success (numeric_values c) (\<lambda>vs.
     on_success (reduce_columns f cs) (\<lambda>s. Inr ((n, f vs) # s)))"

definition DataFrame_mean :: "frame \<Rightarrow> error + series" where
  "DataFrame_mean df = reduce_columns nanmean (columns df)"

definition DataFrame_median :: "frame \<Rightarrow> error + series" where
  "DataFrame_median df = reduce_columns nanmedian (columns df)"

text \<open>
  \<^verbatim>\<open>df.mode()\<close> is not a series but a frame: a column can have several modes (the
  values tied for the highest count), so the result has one row per rank, labelled
  \<open>0, 1, \<dots>\<close>, each column holding its modes in ascending order and padded with absent
  cells below. Absent cells are not counted.
\<close>

definition modes :: "'a list \<Rightarrow> 'a list" where
  "modes vs =
     (let m = fold max (map (count_list vs) vs) 0 in
      rev (remdups (rev (filter (\<lambda>v. count_list vs v = m) vs))))"

fun scalar_key :: "scalar \<Rightarrow> rat \<times> string" where
  "scalar_key (Num r) = (r, [])"
| "scalar_key (Str s) = (0, s)"

fun is_str :: "scalar \<Rightarrow> bool" where
  "is_str (Str s) = True"
| "is_str (Num r) = False"

text \<open>
  Modes of an object column are sorted when its values can be compared with each other
  (all text or all numbers); otherwise they stay in order of first appearance.
\<close>

fun column_modes :: "column \<Rightarrow> scalar list" where
  "column_modes (NumCol xs) = map Num (sort (modes (present xs)))"
| "column_modes (ObjCol ys) =
     (let ms = modes (present ys) in
      if list_all is_str ms \<or> list_all (\<lambda>v. \<not> is_str v) ms then sort_key scalar_key ms
      else ms)"

fun padded :: "nat \<Rightarrow> column \<Rightarrow> scalar list \<Rightarrow> column" where
  "padded k (NumCol xs) ms =
     NumCol (map (\<lambda>v. num_of (Some v)) ms @ replicate (k - length ms) None)"
| "padded k (ObjCol ys) ms = ObjCol (map Some ms @ replicate (k - length ms) None)"

definition DataFrame_mode :: "frame \<Rightarrow> frame" where
  "DataFrame_mode df =
     (let k = fold max (map (\<lambda>(n, c). length (column_modes c)) (columns df)) 0 in
      \<lparr>index = map int [0..<k],
       columns = map (\<lambda>(n, c). (n, padded k c (column_modes c))) (columns df)\<rparr>)"

subsection \<open>\<^verbatim>\<open>DataFrame.fillna\<close>\<close>

text \<open>
  Filling a column: every absent cell takes the value offered at its position, if one is
  offered; present cells stay. A number column into which text has been filled becomes
  an object column.
\<close>

definition filled :: "scalar option list \<Rightarrow> scalar option list \<Rightarrow> scalar option list" where
  "filled xs offers = map (\<lambda>(x, offer). case x of None \<Rightarrow> offer | Some v \<Rightarrow> Some v) (zip xs offers)"

fun fillna_column :: "column \<Rightarrow> scalar option list \<Rightarrow> column" where
  "fillna_column (ObjCol ys) offers = ObjCol (filled ys offers)"
| "fillna_column (NumCol xs) offers =
     (let zs = filled (map (map_option Num) xs) offers in
      if list_all is_num_cell zs then NumCol (map num_of zs) else ObjCol zs)"

text \<open>
  \<^verbatim>\<open>df.fillna(value)\<close> with a scalar fills every absent cell of every column with it.
  With no value (\<^verbatim>\<open>None\<close>) pandas raises.
\<close>

definition fillna_scalar :: "frame \<Rightarrow> scalar option \<Rightarrow> error + frame" where
  "fillna_scalar df value =
     (case value of
        None \<Rightarrow> Inl (ValueError ''Must specify a fill 'value' or 'method'.'')
      | Some v \<Rightarrow>
          Inr (df\<lparr>columns :=
            map (\<lambda>(n, c). (n, fillna_column c (replicate (length (cells c)) (Some v))))
              (columns df)\<rparr>))"

text \<open>
  With a series, the column named \<open>n\<close> is filled with the series' value at \<open>n\<close>;
  a column the series does not name, or names with NaN, is left as it is.
\<close>

definition fillna_series :: "frame \<Rightarrow> series \<Rightarrow> frame" where
  "fillna_series df value =
     df\<lparr>columns :=
       map (\<lambda>(n, c). (n, fillna_column c (replicate (length (cells c))
              (case map_of value n of None \<Rightarrow> None | Some v \<Rightarrow> map_option Num v))))
         (columns df)\<rparr>"

text \<open>
  With a frame, values are aligned on both axes: the absent cell of column \<open>n\<close> in the
  row labelled \<open>l\<close> takes the value's cell of column \<open>n\<close> in its row labelled \<open>l\<close>,
  when the value has such a column and such a row.
\<close>

definition at_label :: "frame \<Rightarrow> string \<Rightarrow> int \<Rightarrow> scalar option" where
  "at_label value n l =
     (case map_of (columns value) n of
        None \<Rightarrow> None
      | Some c \<Rightarrow> (case map_of (zip (index value) (cells c)) l of None \<Rightarrow> None | Some x \<Rightarrow> x))"

definition fillna_frame :: "frame \<Rightarrow> frame \<Rightarrow> frame" where
  "fillna_frame df value =
     df\<lparr>columns :=
       map (\<lambda>(n, c). (n, fillna_column c (map (at_label value n) (index df)))) (columns df)\<rparr>"

subsection \<open>\<^verbatim>\<open>df[names] = value\<close>\<close>

text \<open>
  Assigning a frame to a list of names pairs the names with the value's columns by
  position and assigns column by column; assigning to a name the frame does not have
  appends a column.
\<close>

definition set_column :: "string \<Rightarrow> column \<Rightarrow> frame \<Rightarrow> frame" where
  "set_column k c df =
     (if k \<in> set (column_names df)
      then df\<lparr>columns := map (\<lambda>(n, old). if n = k then (n, c) else (n, old)) (columns df)\<rparr>
      else df\<lparr>columns := columns df @ [(k, c)]\<rparr>)"

definition setitem :: "frame \<Rightarrow> string list \<Rightarrow> frame \<Rightarrow> frame" where
  "setitem df names value = fold (\<lambda>(k, (n, c)). set_column k c) (zip names (columns value)) df"

section \<open>The strategies\<close>

record DropMissingValuesStrategy =
  axis :: int
  thresh :: "int option"

record FillMissingValuesStrategy =
  fill_method :: string
  fill_value :: "scalar option"

definition DropMissingValuesStrategy_handle :: "DropMissingValuesStrategy \<Rightarrow> frame \<Rightarrow> error + frame" where
  "DropMissingValuesStrategy_handle self df =
     on_success (dropna df (axis self) (thresh self)) (\<lambda>df_cleaned. Inr df_cleaned)"

definition ALLOWED_METHODS :: "string set" where
  "ALLOWED_METHODS = {''mean'', ''median'', ''mode'', ''constant''}"

definition FillMissingValuesStrategy_handle :: "FillMissingValuesStrategy \<Rightarrow> frame \<Rightarrow> error + frame" where
  "FillMissingValuesStrategy_handle self df =
     (let df_cleaned = copy df in
      if fill_method self = ''mean'' then
        (let numeric_columns = column_names (select_dtypes_number df_cleaned) in
         on_success (getitem df_cleaned numeric_columns) (\<lambda>target.
         on_success (getitem df_cleaned numeric_columns) (\<lambda>source.
         on_success (DataFrame_mean source) (\<lambda>stat.
         Inr (setitem df_cleaned numeric_columns (fillna_series target stat))))))
      else if fill_method self = ''median'' then
        (let numeric_columns = column_names (select_dtypes_number df_cleaned) in
         on_success (getitem df_cleaned numeric_columns) (\<lambda>target.
         on_success (getitem df_cleaned numeric_columns) (\<lambda>source.
         on_success (DataFrame_median source) (\<lambda>stat.
         Inr (setitem df_cleaned numeric_columns (fillna_series target stat))))))
      else if fill_method self = ''mode'' then
        (let numeric_columns = column_names (select_dtypes_number df_cleaned) in
         on_success (getitem df_cleaned numeric_columns) (\<lambda>target.
         on_success (getitem df_cleaned numeric_columns) (\<lambda>source.
         Inr (setitem df_cleaned numeric_columns (fillna_frame target (DataFrame_mode source))))))
      else if fill_method self = ''constant'' then
        fillna_scalar df_cleaned (fill_value self)
      else Inr df_cleaned)"

text \<open>
  The two strategy classes share the abstract interface \<^verbatim>\<open>handle(df)\<close>; a call
  through the interface dispatches on the class of the object.
\<close>

datatype MissingValueHandlingStrategy =
  Drop DropMissingValuesStrategy | Fill FillMissingValuesStrategy

fun handle :: "MissingValueHandlingStrategy \<Rightarrow> frame \<Rightarrow> error + frame" where
  "handle (Drop self) df = DropMissingValuesStrategy_handle self df"
| "handle (Fill self) df = FillMissingValuesStrategy_handle self df"

definition DropMissingValuesStrategy_init :: "int \<Rightarrow> int option \<Rightarrow> DropMissingValuesStrategy" where
  "DropMissingValuesStrategy_init ax th = \<lparr>axis = ax, thresh = th\<rparr>"

definition FillMissingValuesStrategy_init :: "string \<Rightarrow> scalar option \<Rightarrow> FillMissingValuesStrategy" where
  "FillMissingValuesStrategy_init m value = \<lparr>fill_method = m, fill_value = value\<rparr>"

record MissingValueHandler =
  strategy :: MissingValueHandlingStrategy

definition MissingValueHandler_init :: "MissingValueHandlingStrategy \<Rightarrow> MissingValueHandler" where
  "MissingValueHandler_init s = \<lparr>strategy = s\<rparr>"

definition set_strategy :: "MissingValueHandler \<Rightarrow> MissingValueHandlingStrategy \<Rightarrow> MissingValueHandler" where
  "set_strategy self s = self\<lparr>strategy := s\<rparr>"

definition handle_missing_values :: "MissingValueHandler \<Rightarrow> frame \<Rightarrow> error + frame" where
  "handle_missing_values self df = handle (strategy self) df"

text \<open>
  The pipeline step of \<^verbatim>\<open>steps/handle_missing_values_step.py\<close>. It builds the drop
  strategy with \<^verbatim>\<open>axis=0\<close> and the default threshold, or the fill strategy with the
  default fill value, and has no parameter for either.
\<close>

definition handle_missing_values_step :: "frame \<Rightarrow> string \<Rightarrow> error + frame" where
  "handle_missing_values_step data s =
     (if s = ''drop'' then
        handle_missing_values
          (MissingValueHandler_init (Drop (DropMissingValuesStrategy_init 0 None))) data
      else if s \<in> set [''mean'', ''median'', ''mode'', ''constant''] then
        handle_missing_values
          (MissingValueHandler_init (Fill (FillMissingValuesStrategy_init s None))) data
      else Inl (ValueError (''Unsupported missing value handling strategy: '' @ s)))"

section \<open>Objects, mutation and logging\<close>

text \<open>
  The functions above compute with frames as values. In the program a frame is an
  object: \<^verbatim>\<open>df.copy()\<close> and \<^verbatim>\<open>dropna\<close> create objects,
  \<^verbatim>\<open>df_cleaned[numeric_columns] = \<dots>\<close> changes one in place, and every method
  writes to the log. The world below has a heap of frame objects, referred to by their
  position, and the list of log records written so far. The same source functions are
  translated once more over it.
\<close>

datatype level = INFO | ERROR

record world =
  heap :: "frame list"
  logged :: "(level \<times> string) list"

definition logging_info :: "string \<Rightarrow> world \<Rightarrow> world" where
  "logging_info msg w = w\<lparr>logged := logged w @ [(INFO, msg)]\<rparr>"

definition logging_error :: "string \<Rightarrow> world \<Rightarrow> world" where
  "logging_error msg w = w\<lparr>logged := logged w @ [(ERROR, msg)]\<rparr>"

definition allocate :: "frame \<Rightarrow> world \<Rightarrow> nat \<times> world" where
  "allocate f w = (length (heap w), w\<lparr>heap := heap w @ [f]\<rparr>)"

definition store :: "nat \<Rightarrow> frame \<Rightarrow> world \<Rightarrow> world" where
  "store r f w = w\<lparr>heap := (heap w)[r := f]\<rparr>"

text \<open>Python's \<^verbatim>\<open>str\<close> of an integer and of an optional integer, for the f-strings.\<close>

function str_nat :: "nat \<Rightarrow> string" where
  "str_nat n =
     (if n < 10 then [char_of (48 + n)] else str_nat (n div 10) @ [char_of (48 + n mod 10)])"
  by pat_completeness auto
termination
  by (relation "measure id") auto

declare str_nat.simps [simp del]

definition str_int :: "int \<Rightarrow> string" where
  "str_int i = (if i < 0 then CHR ''-'' # str_nat (nat (- i)) else str_nat (nat i))"

fun str_optional :: "int option \<Rightarrow> string" where
  "str_optional None = ''None''"
| "str_optional (Some i) = str_int i"

fun join :: "string \<Rightarrow> string list \<Rightarrow> string" where
  "join sep [] = []"
| "join sep [x] = x"
| "join sep (x # y # ys) = x @ sep @ join sep (y # ys)"

definition DropMissingValuesStrategy_handle_exec ::
    "DropMissingValuesStrategy \<Rightarrow> nat \<Rightarrow> world \<Rightarrow> (error + nat) \<times> world" where
  "DropMissingValuesStrategy_handle_exec self df w0 =
     (let w1 = logging_info (''Dropping missing values with axis='' @ str_int (axis self) @
                 '' and thresh='' @ str_optional (thresh self)) w0 in
      case dropna (heap w1 ! df) (axis self) (thresh self) of
        Inl e \<Rightarrow> (Inl e, w1)
      | Inr cleaned \<Rightarrow>
          (let (df_cleaned, w2) = allocate cleaned w1;
               w3 = logging_info ''Missing values dropped.'' w2
           in (Inr df_cleaned, w3)))"

text \<open>
  The constructor of the fill strategy. The set \<^verbatim>\<open>ALLOWED_METHODS\<close> is joined into
  the message in the order of the source's literal (Python does not fix the iteration
  order of a set; only the text of the record depends on it).
\<close>

definition FillMissingValuesStrategy_init_exec ::
    "string \<Rightarrow> scalar option \<Rightarrow> world \<Rightarrow> FillMissingValuesStrategy \<times> world" where
  "FillMissingValuesStrategy_init_exec m value w0 =
     (let w1 =
        (if m \<notin> ALLOWED_METHODS then
           logging_error (''Invalid method '' @ [CHR 0x27] @ m @ [CHR 0x27] @
             ''. Allowed methods are: '' @
             join '', '' [''mean'', ''median'', ''mode'', ''constant''] @
             ''. Defaulting to the method 'mean'.'') w0
         else w0)
      in (\<lparr>fill_method = m, fill_value = value\<rparr>, w1))"

text \<open>
  The three statistic branches read the copy twice, compute the filled sub-frame and
  write it back into the copy; the constant branch rebinds \<^verbatim>\<open>df_cleaned\<close> to the
  new object \<^verbatim>\<open>fillna\<close> returns.
\<close>

definition FillMissingValuesStrategy_handle_exec ::
    "FillMissingValuesStrategy \<Rightarrow> nat \<Rightarrow> world \<Rightarrow> (error + nat) \<times> world" where
  "FillMissingValuesStrategy_handle_exec self df w0 =
     (let w1 = logging_info (''Filling missing values using method: '' @ fill_method self) w0;
          (df_cleaned, w2) = allocate (copy (heap w1 ! df)) w1
      in
      if fill_method self = ''mean'' then
        (let numeric_columns = column_names (select_dtypes_number (heap w2 ! df_cleaned)) in
         case on_success (getitem (heap w2 ! df_cleaned) numeric_columns) (\<lambda>target.
              on_success (getitem (heap w2 ! df_cleaned) numeric_columns) (\<lambda>source.
              on_success (DataFrame_mean source) (\<lambda>stat.
              Inr (fillna_series target stat)))) of
           Inl e \<Rightarrow> (Inl e, w2)
         | Inr value \<Rightarrow>
             (let w3 = store df_cleaned (setitem (heap w2 ! df_cleaned) numeric_columns value) w2
              in (Inr df_cleaned, logging_info ''Missing values filled.'' w3)))
      else if fill_method self = ''median'' then
        (let numeric_columns = column_names (select_dtypes_number (heap w2 ! df_cleaned)) in
         case on_success (getitem (heap w2 ! df_cleaned) numeric_columns) (\<lambda>target.
              on_success (getitem (heap w2 ! df_cleaned) numeric_columns) (\<lambda>source.
              on_success (DataFrame_median source) (\<lambda>stat.
              Inr (fillna_series target stat)))) of
           Inl e \<Rightarrow> (Inl e, w2)
         | Inr value \<Rightarrow>
             (let w3 = store df_cleaned (setitem (heap w2 ! df_cleaned) numeric_columns value) w2
              in (Inr df_cleaned, logging_info ''Missing values filled.'' w3)))
      else if fill_method self = ''mode'' then
        (let numeric_columns = column_names (select_dtypes_number (heap w2 ! df_cleaned)) in
         case on_success (getitem (heap w2 ! df_cleaned) numeric_columns) (\<lambda>target.
              on_success (getitem (heap w2 ! df_cleaned) numeric_columns) (\<lambda>source.
              Inr (fillna_frame target (DataFrame_mode source)))) of
           Inl e \<Rightarrow> (Inl e, w2)
         | Inr value \<Rightarrow>
             (let w3 = store df_cleaned (setitem (heap w2 ! df_cleaned) numeric_columns value) w2
              in (Inr df_cleaned, logging_info ''Missing values filled.'' w3)))
      else if fill_method self = ''constant'' then
        (case fillna_scalar (heap w2 ! df_cleaned) (fill_value self) of
           Inl e \<Rightarrow> (Inl e, w2)
         | Inr value \<Rightarrow>
             (let (df_cleaned, w3) = allocate value w2
              in (Inr df_cleaned, logging_info ''Missing values filled.'' w3)))
      else (Inr df_cleaned, logging_info ''Missing values filled.'' w2))"

fun handle_exec ::
    "MissingValueHandlingStrategy \<Rightarrow> nat \<Rightarrow> world \<Rightarrow> (error + nat) \<times> world" where
  "handle_exec (Drop self) df w = DropMissingValuesStrategy_handle_exec self df w"
| "handle_exec (Fill self) df w = FillMissingValuesStrategy_handle_exec self df w"

definition handle_missing_values_exec ::
    "MissingValueHandler \<Rightarrow> nat \<Rightarrow> world \<Rightarrow> (error + nat) \<times> world" where
  "handle_missing_values_exec self df w0 =
     handle_exec (strategy self) df
       (logging_info ''Executing missing value handling strategy.'' w0)"

definition handle_missing_values_step_exec ::
    "nat \<Rightarrow> string \<Rightarrow> world \<Rightarrow> (error + nat) \<times> world" where
  "handle_missing_values_step_exec data s w0 =
     (if s = ''drop'' then
        handle_missing_values_exec
          (MissingValueHandler_init (Drop (DropMissingValuesStrategy_init 0 None))) data w0
      else if s \<in> set [''mean'', ''median'', ''mode'', ''constant''] then
        (let (fill, w1) = FillMissingValuesStrategy_init_exec s None w0 in
         handle_missing_values_exec (MissingValueHandler_init (Fill fill)) data w1)
      else (Inl (ValueError (''Unsupported missing value handling strategy: '' @ s)), w0))"

section \<open>Facts about the pandas operations\<close>

lemma filled_replicate:
  "filled xs (replicate (length xs) offer) =
     map (\<lambda>x. case x of None \<Rightarrow> offer | Some v \<Rightarrow> Some v) xs"
  by (simp add: filled_def zip_replicate2 comp_def)

lemma num_roundtrip: "list_all is_num_cell zs \<Longrightarrow> map (map_option Num) (map num_of zs) = zs"
proof (induction zs)
  case Nil
  then show ?case by simp
next
  case (Cons z zs)
  then show ?case by (cases z rule: is_num_cell.cases) auto
qed

lemma num_of_Num: "map num_of (map (map_option Num) xs) = xs"
proof (induction xs)
  case Nil
  then show ?case by simp
next
  case (Cons x xs)
  then show ?case by (cases x) auto
qed

lemma is_num_cell_Num: "list_all is_num_cell (map (map_option Num) xs)"
proof (induction xs)
  case Nil
  then show ?case by simp
next
  case (Cons x xs)
  then show ?case by (cases x) auto
qed

text \<open>Whatever dtype the filled column ends with, its cells are the filled cells.\<close>

lemma cells_fillna_column: "cells (fillna_column c offers) = filled (cells c) offers"
  by (cases c) (simp_all add: Let_def num_roundtrip del: map_map)

lemma cells_fill_constant:
  "cells (fillna_column c (replicate (length (cells c)) (Some v))) =
     map (\<lambda>x. case x of None \<Rightarrow> Some v | Some y \<Rightarrow> Some y) (cells c)"
  by (simp add: cells_fillna_column filled_replicate)

lemma filled_present:
  "None \<notin> set xs \<Longrightarrow> length offers = length xs \<Longrightarrow> filled xs offers = xs"
proof (induction xs arbitrary: offers)
  case Nil
  then show ?case by (simp add: filled_def)
next
  case (Cons x xs)
  then obtain p ps where "offers = p # ps" by (cases offers) auto
  with Cons show ?case by (cases x) (auto simp: filled_def)
qed

text \<open>A column with no absent cell is not changed by a fill, dtype included.\<close>

lemma fillna_column_complete:
  "None \<notin> set (cells c) \<Longrightarrow> length offers = length (cells c) \<Longrightarrow> fillna_column c offers = c"
proof (cases c)
  case (NumCol xs)
  assume "None \<notin> set (cells c)" "length offers = length (cells c)"
  with NumCol have "filled (map (map_option Num) xs) offers = map (map_option Num) xs"
    by (intro filled_present) auto
  with NumCol show ?thesis by (simp add: num_of_Num is_num_cell_Num del: map_map)
next
  case (ObjCol ys)
  assume "None \<notin> set (cells c)" "length offers = length (cells c)"
  with ObjCol show ?thesis by (simp add: filled_present)
qed

lemma fill_constant_twice:
  "fillna_column (fillna_column c (replicate (length (cells c)) (Some v)))
     (replicate (length (cells (fillna_column c (replicate (length (cells c)) (Some v)))))
        (Some v)) =
   fillna_column c (replicate (length (cells c)) (Some v))"
proof (rule fillna_column_complete)
  show "None \<notin> set (cells (fillna_column c (replicate (length (cells c)) (Some v))))"
    by (auto simp: cells_fill_constant split: option.splits)
qed simp

subsection \<open>Selecting rows\<close>




lemma complete_row_at:
  "list_all (\<lambda>x. x \<noteq> None) (snd (row_at df i)) \<longleftrightarrow>
     list_all (\<lambda>(n, c). cells c ! i \<noteq> None) (columns df)"
  by (simp add: row_at_def list_all_iff case_prod_unfold)

subsection \<open>Selecting, reducing and writing back the number columns\<close>














subsection \<open>The errors a fill can raise\<close>

lemma numeric_values_error: "numeric_values c = Inl e \<Longrightarrow> \<exists>m. e = TypeError m"
  by (cases c) (auto split: if_splits)

lemma reduce_columns_error: "reduce_columns f cs = Inl e \<Longrightarrow> \<exists>m. e = TypeError m"
  by (induction cs arbitrary: e)
     (auto simp: on_success_def split: sum.splits dest: numeric_values_error)

lemma getitem_error: "getitem df ns = Inl e \<Longrightarrow> \<exists>k. e = KeyError k"
  by (auto simp: getitem_def split: list.splits)

lemma fillna_scalar_error:
  "fillna_scalar df v = Inl e \<Longrightarrow> e = ValueError ''Must specify a fill 'value' or 'method'.''"
  by (auto simp: fillna_scalar_def split: option.splits)

lemma fill_handle_error:
  "FillMissingValuesStrategy_handle self df = Inl e \<Longrightarrow>
     (\<exists>k. e = KeyError k) \<or> (\<exists>m. e = TypeError m) \<or>
     e = ValueError ''Must specify a fill 'value' or 'method'.''"
  unfolding FillMissingValuesStrategy_handle_def Let_def on_success_def
    DataFrame_mean_def DataFrame_median_def
  by (auto split: if_splits sum.splits
      dest: getitem_error reduce_columns_error fillna_scalar_error)

lemma drop_rows_no_error:
  "DropMissingValuesStrategy_handle \<lparr>axis = 0, thresh = t\<rparr> df \<noteq> Inl e"
  by (simp add: DropMissingValuesStrategy_handle_def dropna_def on_success_def)

section \<open>The two translations agree\<close>

text \<open>
  Run on a world, a strategy returns a reference to an object that holds the frame the
  value-level function computes from the input object's frame, and it raises exactly
  when the value-level function does. The lemmas also say which objects exist
  afterwards: the old ones, and one or two new ones behind them.
\<close>

lemma fill_exec:
  "FillMissingValuesStrategy_handle_exec self df w =
     (case FillMissingValuesStrategy_handle self (heap w ! df) of
        Inl e \<Rightarrow>
          (Inl e,
           w\<lparr>heap := heap w @ [heap w ! df],
             logged := logged w @
               [(INFO, ''Filling missing values using method: '' @ fill_method self)]\<rparr>)
      | Inr out \<Rightarrow>
          if fill_method self = ''constant'' then
            (Inr (Suc (length (heap w))),
             w\<lparr>heap := heap w @ [heap w ! df, out],
               logged := logged w @
                 [(INFO, ''Filling missing values using method: '' @ fill_method self),
                  (INFO, ''Missing values filled.'')]\<rparr>)
          else
            (Inr (length (heap w)),
             w\<lparr>heap := heap w @ [out],
               logged := logged w @
                 [(INFO, ''Filling missing values using method: '' @ fill_method self),
                  (INFO, ''Missing values filled.'')]\<rparr>))"
  unfolding FillMissingValuesStrategy_handle_exec_def FillMissingValuesStrategy_handle_def
    Let_def allocate_def store_def logging_info_def copy_def
  by (auto simp: nth_append on_success_def split: sum.splits)

lemma drop_exec:
  "DropMissingValuesStrategy_handle_exec self df w =
     (case DropMissingValuesStrategy_handle self (heap w ! df) of
        Inl e \<Rightarrow>
          (Inl e,
           w\<lparr>logged := logged w @
               [(INFO, ''Dropping missing values with axis='' @ str_int (axis self) @
                  '' and thresh='' @ str_optional (thresh self))]\<rparr>)
      | Inr out \<Rightarrow>
          (Inr (length (heap w)),
           w\<lparr>heap := heap w @ [out],
             logged := logged w @
               [(INFO, ''Dropping missing values with axis='' @ str_int (axis self) @
                  '' and thresh='' @ str_optional (thresh self)),
                (INFO, ''Missing values dropped.'')]\<rparr>))"
  unfolding DropMissingValuesStrategy_handle_exec_def DropMissingValuesStrategy_handle_def
    Let_def allocate_def store_def logging_info_def on_success_def
  by (simp split: sum.splits)

lemma fill_exec_error:
  "fst (FillMissingValuesStrategy_handle_exec self df w) = Inl e \<Longrightarrow>
     FillMissingValuesStrategy_handle self (heap w ! df) = Inl e"
  by (simp add: fill_exec split: sum.splits if_splits)

lemma fill_exec_frame:
  assumes "FillMissingValuesStrategy_handle_exec self df w = (r, w')"
  shows "take (length (heap w)) (heap w') = heap w \<and>
         (case r of
            Inl e \<Rightarrow> FillMissingValuesStrategy_handle self (heap w ! df) = Inl e
          | Inr out \<Rightarrow> length (heap w) \<le> out \<and> out < length (heap w') \<and>
              FillMissingValuesStrategy_handle self (heap w ! df) = Inr (heap w' ! out))"
  using assms unfolding fill_exec
  by (auto split: sum.splits if_splits simp: nth_append)

lemma drop_exec_frame:
  assumes "DropMissingValuesStrategy_handle_exec self df w = (r, w')"
  shows "take (length (heap w)) (heap w') = heap w \<and>
         (case r of
            Inl e \<Rightarrow> DropMissingValuesStrategy_handle self (heap w ! df) = Inl e
          | Inr out \<Rightarrow> length (heap w) \<le> out \<and> out < length (heap w') \<and>
              DropMissingValuesStrategy_handle self (heap w ! df) = Inr (heap w' ! out))"
  using assms unfolding drop_exec
  by (auto split: sum.splits)

section \<open>The claims\<close>

subsection \<open>Filling with a constant\<close>



text \<open>
  C8. Filling with a constant \<open>v\<close> twice gives the same dataset as filling once: the
  first pass leaves no absent cell, so the second changes nothing.
\<close>

theorem fill_constant_idempotent:
  "\<exists>once. FillMissingValuesStrategy_handle
            \<lparr>fill_method = ''constant'', fill_value = Some v\<rparr> df = Inr once \<and>
     list_all (\<lambda>(n, c). list_all (\<lambda>x. x \<noteq> None) (cells c)) (columns once) \<and>
     FillMissingValuesStrategy_handle
            \<lparr>fill_method = ''constant'', fill_value = Some v\<rparr> once = Inr once"
proof -
  let ?fill = "\<lambda>(n, c). (n, fillna_column c (replicate (length (cells c)) (Some v)))"
  let ?once = "df\<lparr>columns := map ?fill (columns df)\<rparr>"
  have first: "FillMissingValuesStrategy_handle
      \<lparr>fill_method = ''constant'', fill_value = Some v\<rparr> df = Inr ?once"
    by (simp add: FillMissingValuesStrategy_handle_def copy_def fillna_scalar_def)
  have complete: "list_all (\<lambda>(n, c). list_all (\<lambda>x. x \<noteq> None) (cells c)) (columns ?once)"
    by (auto simp: list_all_iff cells_fill_constant split: option.splits)
  have second: "FillMissingValuesStrategy_handle
      \<lparr>fill_method = ''constant'', fill_value = Some v\<rparr> ?once = Inr ?once"
    by (simp add: FillMissingValuesStrategy_handle_def copy_def fillna_scalar_def comp_def
        case_prod_unfold fill_constant_twice)
  from first complete second show ?thesis by blast
qed

subsection \<open>An invalid fill method\<close>

text \<open>
  C3. For every method name \<open>m\<close> outside \<^verbatim>\<open>mean\<close>, \<^verbatim>\<open>median\<close>, \<^verbatim>\<open>mode\<close> and
  \<^verbatim>\<open>constant\<close>, the constructor of the fill strategy only writes one log record (through
  \<^verbatim>\<open>logging.error\<close>); it creates or changes no frame and raises nothing. The strategy
  it returns has \<open>m\<close> as its method, not \<^verbatim>\<open>mean\<close>. A later \<^verbatim>\<open>handle\<close> does not
  raise and fills nothing: it returns the dataset as it was.
\<close>

theorem invalid_method_is_kept:
  assumes "m \<notin> ALLOWED_METHODS"
  shows "heap (snd (FillMissingValuesStrategy_init_exec m v w)) = heap w \<and>
         (\<exists>msg. logged (snd (FillMissingValuesStrategy_init_exec m v w)) =
                  logged w @ [(ERROR, msg)]) \<and>
         fst (FillMissingValuesStrategy_init_exec m v w) = \<lparr>fill_method = m, fill_value = v\<rparr> \<and>
         m \<noteq> ''mean'' \<and>
         FillMissingValuesStrategy_handle (fst (FillMissingValuesStrategy_init_exec m v w)) df =
           Inr df"
  using assms
  by (simp add: FillMissingValuesStrategy_init_exec_def ALLOWED_METHODS_def logging_error_def
      FillMissingValuesStrategy_handle_def copy_def Let_def)

text \<open>
  With the method \<^verbatim>\<open>average\<close> the dataset comes back with its absent cell, where the
  mean fill would have written 2.
\<close>

theorem invalid_method_is_kept_witness:
  "fst (FillMissingValuesStrategy_init_exec ''average'' None \<lparr>heap = [], logged = []\<rparr>) =
     \<lparr>fill_method = ''average'', fill_value = None\<rparr> \<and>
   FillMissingValuesStrategy_handle
     (fst (FillMissingValuesStrategy_init_exec ''average'' None \<lparr>heap = [], logged = []\<rparr>))
     \<lparr>index = [0, 1, 2], columns = [(''area'', NumCol [Some 1, None, Some 3])]\<rparr> =
     Inr \<lparr>index = [0, 1, 2], columns = [(''area'', NumCol [Some 1, None, Some 3])]\<rparr> \<and>
   FillMissingValuesStrategy_handle \<lparr>fill_method = ''mean'', fill_value = None\<rparr>
     \<lparr>index = [0, 1, 2], columns = [(''area'', NumCol [Some 1, None, Some 3])]\<rparr> =
     Inr \<lparr>index = [0, 1, 2], columns = [(''area'', NumCol [Some 1, Some 2, Some 3])]\<rparr>"
proof -
  have outside: "''average'' \<notin> ALLOWED_METHODS"
    by (simp add: ALLOWED_METHODS_def)
  have mean: "FillMissingValuesStrategy_handle \<lparr>fill_method = ''mean'', fill_value = None\<rparr>
     \<lparr>index = [0, 1, 2], columns = [(''area'', NumCol [Some 1, None, Some 3])]\<rparr> =
     Inr \<lparr>index = [0, 1, 2], columns = [(''area'', NumCol [Some 1, Some 2, Some 3])]\<rparr>"
    by code_simp
  from invalid_method_is_kept [OF outside, of None "\<lparr>heap = [], logged = []\<rparr>"
      "\<lparr>index = [0, 1, 2], columns = [(''area'', NumCol [Some 1, None, Some 3])]\<rparr>"] mean
  show ?thesis by blast
qed

subsection \<open>Dropping columns\<close>

text \<open>
  C6. For every dataset and every non-negative integer \<open>k\<close>, the drop strategy with
  \<^verbatim>\<open>axis=1\<close> and threshold \<open>k\<close> returns the columns that have at least \<open>k\<close>
  non-absent cells, and only those, in their original order, with their cells and the
  rows' labels unchanged.
\<close>

theorem drop_columns_threshold:
  "\<exists>out. DropMissingValuesStrategy_handle \<lparr>axis = 1, thresh = Some (int k)\<rparr> df = Inr out \<and>
     index out = index df \<and>
     columns out =
       filter (\<lambda>(n, c). k \<le> length (filter (\<lambda>x. x \<noteq> None) (cells c))) (columns df)"
  by (simp add: DropMissingValuesStrategy_handle_def dropna_def on_success_def notna_count_def)

theorem drop_columns_threshold_witness:
  "DropMissingValuesStrategy_handle \<lparr>axis = 1, thresh = Some 2\<rparr>
     \<lparr>index = [0, 1, 2],
      columns = [(''a'', NumCol [Some 1, None, None]), (''b'', NumCol [Some 1, None, Some 3]),
                 (''c'', ObjCol [None, None, None]), (''d'', ObjCol [Some (Str ''x''), Some (Str ''y''), Some (Str ''z'')])]\<rparr> =
   Inr \<lparr>index = [0, 1, 2],
        columns = [(''b'', NumCol [Some 1, None, Some 3]),
                   (''d'', ObjCol [Some (Str ''x''), Some (Str ''y''), Some (Str ''z'')])]\<rparr>"
proof -
  have "DropMissingValuesStrategy_handle \<lparr>axis = 1, thresh = Some 2\<rparr>
     \<lparr>index = [0, 1, 2],
      columns = [(''a'', NumCol [Some 1, None, None]), (''b'', NumCol [Some 1, None, Some 3]),
                 (''c'', ObjCol [None, None, None]), (''d'', ObjCol [Some (Str ''x''), Some (Str ''y''), Some (Str ''z'')])]\<rparr> =
   Inr \<lparr>index = [0, 1, 2],
        columns = [(''b'', NumCol [Some 1, None, Some 3]),
                   (''d'', ObjCol [Some (Str ''x''), Some (Str ''y''), Some (Str ''z'')])]\<rparr>"
    by code_simp
  with drop_columns_threshold [of 2 "\<lparr>index = [0, 1, 2],
      columns = [(''a'', NumCol [Some 1, None, None]), (''b'', NumCol [Some 1, None, Some 3]),
                 (''c'', ObjCol [None, None, None]), (''d'', ObjCol [Some (Str ''x''), Some (Str ''y''), Some (Str ''z'')])]\<rparr>"]
  show ?thesis by blast
qed

subsection \<open>The pipeline step\<close>

text \<open>
  C7. For every strategy name outside \<^verbatim>\<open>drop\<close>, \<^verbatim>\<open>mean\<close>, \<^verbatim>\<open>median\<close>,
  \<^verbatim>\<open>mode\<close> and \<^verbatim>\<open>constant\<close> the step fails with the unsupported-strategy error, for
  every dataset, and does nothing else: no object is created or changed and nothing is
  logged. For every name inside that set the step does not raise this error.
\<close>

theorem unsupported_strategy_rejected:
  "(s \<notin> {''drop'', ''mean'', ''median'', ''mode'', ''constant''} \<longrightarrow>
      handle_missing_values_step D s =
        Inl (ValueError (''Unsupported missing value handling strategy: '' @ s)) \<and>
      handle_missing_values_step_exec df s w =
        (Inl (ValueError (''Unsupported missing value handling strategy: '' @ s)), w)) \<and>
   (s \<in> {''drop'', ''mean'', ''median'', ''mode'', ''constant''} \<longrightarrow>
      handle_missing_values_step D s \<noteq>
        Inl (ValueError (''Unsupported missing value handling strategy: '' @ s)) \<and>
      fst (handle_missing_values_step_exec df s w) \<noteq>
        Inl (ValueError (''Unsupported missing value handling strategy: '' @ s)))"
proof (intro conjI impI)
  assume out: "s \<notin> {''drop'', ''mean'', ''median'', ''mode'', ''constant''}"
  show "handle_missing_values_step D s =
        Inl (ValueError (''Unsupported missing value handling strategy: '' @ s))"
    using out by (simp add: handle_missing_values_step_def)
  show "handle_missing_values_step_exec df s w =
        (Inl (ValueError (''Unsupported missing value handling strategy: '' @ s)), w)"
    using out by (simp add: handle_missing_values_step_exec_def)
next
  let ?err = "ValueError (''Unsupported missing value handling strategy: '' @ s)"
  assume inside: "s \<in> {''drop'', ''mean'', ''median'', ''mode'', ''constant''}"
  show "handle_missing_values_step D s \<noteq> Inl ?err"
  proof (cases "s = ''drop''")
    case True
    then show ?thesis
      by (simp add: handle_missing_values_step_def handle_missing_values_def
          MissingValueHandler_init_def DropMissingValuesStrategy_init_def drop_rows_no_error)
  next
    case False
    with inside have step: "handle_missing_values_step D s =
        FillMissingValuesStrategy_handle (FillMissingValuesStrategy_init s None) D"
      by (auto simp: handle_missing_values_step_def handle_missing_values_def
          MissingValueHandler_init_def)
    show ?thesis
    proof
      assume "handle_missing_values_step D s = Inl ?err"
      with step
      have "FillMissingValuesStrategy_handle (FillMissingValuesStrategy_init s None) D = Inl ?err"
        by simp
      from fill_handle_error [OF this] show False by simp
    qed
  qed
  show "fst (handle_missing_values_step_exec df s w) \<noteq> Inl ?err"
  proof (cases "s = ''drop''")
    case True
    then show ?thesis
      by (simp add: handle_missing_values_step_exec_def handle_missing_values_exec_def
          MissingValueHandler_init_def DropMissingValuesStrategy_init_def drop_exec
          logging_info_def DropMissingValuesStrategy_handle_def dropna_def on_success_def)
  next
    case False
    with inside obtain w1 where step: "handle_missing_values_step_exec df s w =
        FillMissingValuesStrategy_handle_exec \<lparr>fill_method = s, fill_value = None\<rparr> df w1"
      by (auto simp: handle_missing_values_step_exec_def handle_missing_values_exec_def
          MissingValueHandler_init_def FillMissingValuesStrategy_init_exec_def Let_def)
    show ?thesis
    proof
      assume "fst (handle_missing_values_step_exec df s w) = Inl ?err"
      with step
      have "fst (FillMissingValuesStrategy_handle_exec
                  \<lparr>fill_method = s, fill_value = None\<rparr> df w1) = Inl ?err"
        by simp
      from fill_handle_error [OF fill_exec_error [OF this]] show False by simp
    qed
  qed
qed

theorem unsupported_strategy_rejected_witness:
  "handle_missing_values_step \<lparr>index = [0], columns = [(''area'', NumCol [None])]\<rparr> ''knn'' =
     Inl (ValueError (''Unsupported missing value handling strategy: '' @ ''knn'')) \<and>
   handle_missing_values_step \<lparr>index = [0], columns = [(''area'', NumCol [None])]\<rparr> ''median'' \<noteq>
     Inl (ValueError (''Unsupported missing value handling strategy: '' @ ''median''))"
  using unsupported_strategy_rejected [of "''knn''"
          "\<lparr>index = [0], columns = [(''area'', NumCol [None])]\<rparr>" 0 "\<lparr>heap = [], logged = []\<rparr>"]
        unsupported_strategy_rejected [of "''median''"
          "\<lparr>index = [0], columns = [(''area'', NumCol [None])]\<rparr>" 0 "\<lparr>heap = [], logged = []\<rparr>"]
  by simp

text \<open>
  C10. The step has no parameter for a fill value: for the name \<^verbatim>\<open>constant\<close> it builds
  the fill strategy with the constructor's default, \<^verbatim>\<open>None\<close>, so its result is that of
  \<^verbatim>\<open>FillMissingValuesStrategy(method="constant", fill_value=None).handle\<close> on the same
  dataset.
\<close>

theorem step_constant_has_no_fill_value:
  "handle_missing_values_step D ''constant'' =
     FillMissingValuesStrategy_handle (FillMissingValuesStrategy_init ''constant'' None) D \<and>
   fill_value (FillMissingValuesStrategy_init ''constant'' None) = None \<and>
   fst (handle_missing_values_step_exec df ''constant'' w) =
     fst (FillMissingValuesStrategy_handle_exec
            (fst (FillMissingValuesStrategy_init_exec ''constant'' None w)) df
            (logging_info ''Executing missing value handling strategy.''
               (snd (FillMissingValuesStrategy_init_exec ''constant'' None w))))"
  by (simp add: handle_missing_values_step_def handle_missing_values_def
      MissingValueHandler_init_def FillMissingValuesStrategy_init_def
      handle_missing_values_step_exec_def handle_missing_values_exec_def
      FillMissingValuesStrategy_init_exec_def Let_def)

text \<open>
  The call that the step makes for \<^verbatim>\<open>constant\<close> ends in
  \<^verbatim>\<open>df_cleaned.fillna(None)\<close>, which pandas rejects: through the step the
  \<^verbatim>\<open>constant\<close> strategy raises for every dataset.
\<close>

lemma step_constant_raises:
  "handle_missing_values_step D ''constant'' =
     Inl (ValueError ''Must specify a fill 'value' or 'method'.'')"
  by (simp add: handle_missing_values_step_def handle_missing_values_def
      MissingValueHandler_init_def FillMissingValuesStrategy_init_def
      FillMissingValuesStrategy_handle_def copy_def fillna_scalar_def)

subsection \<open>Filling with the mean\<close>



subsection \<open>Filling with the mode\<close>

text \<open>
  C4 says that with method \<^verbatim>\<open>mode\<close> every absent cell of a number column is replaced
  by the column's mode, whatever its row. The code passes the frame \<^verbatim>\<open>df.mode()\<close> to
  \<^verbatim>\<open>fillna\<close>, which aligns it on the row labels: an absent cell in the row labelled
  \<open>i\<close> takes the column's mode of rank \<open>i\<close>, and stays absent when the column has no
  such mode. In the first frame below the only mode is 1 and the absent cell of row 2
  is not filled; in the second the modes are 1 and 2, rows 0 and 1 are filled with
  different values and row 4 is not filled.
\<close>

theorem fill_mode_aligns_on_rows:
  "FillMissingValuesStrategy_handle \<lparr>fill_method = ''mode'', fill_value = None\<rparr>
     \<lparr>index = [0, 1, 2], columns = [(''A'', NumCol [Some 1, Some 1, None])]\<rparr> =
   Inr \<lparr>index = [0, 1, 2], columns = [(''A'', NumCol [Some 1, Some 1, None])]\<rparr> \<and>
   FillMissingValuesStrategy_handle \<lparr>fill_method = ''mode'', fill_value = None\<rparr>
     \<lparr>index = [0, 1, 2, 3, 4], columns = [(''A'', NumCol [None, None, Some 2, Some 1, None])]\<rparr> =
   Inr \<lparr>index = [0, 1, 2, 3, 4],
        columns = [(''A'', NumCol [Some 1, Some 2, Some 2, Some 1, None])]\<rparr>"
proof
  show "FillMissingValuesStrategy_handle \<lparr>fill_method = ''mode'', fill_value = None\<rparr>
     \<lparr>index = [0, 1, 2], columns = [(''A'', NumCol [Some 1, Some 1, None])]\<rparr> =
   Inr \<lparr>index = [0, 1, 2], columns = [(''A'', NumCol [Some 1, Some 1, None])]\<rparr>"
    by code_simp
  show "FillMissingValuesStrategy_handle \<lparr>fill_method = ''mode'', fill_value = None\<rparr>
     \<lparr>index = [0, 1, 2, 3, 4], columns = [(''A'', NumCol [None, None, Some 2, Some 1, None])]\<rparr> =
   Inr \<lparr>index = [0, 1, 2, 3, 4],
        columns = [(''A'', NumCol [Some 1, Some 2, Some 2, Some 1, None])]\<rparr>"
    by code_simp
qed

subsection \<open>Dropping rows\<close>



subsection \<open>The input object\<close>

text \<open>
  C9. For every strategy, drop or fill with any parameters, and every world in which
  \<open>df\<close> refers to an object: after \<^verbatim>\<open>handle(df)\<close> the object \<open>df\<close>, like every
  other object that existed before, holds the frame it held before; when the call
  returns, its result is a new object, not \<open>df\<close>, and holds the frame computed from
  the input.
\<close>

theorem handle_leaves_input_unchanged:
  assumes "df < length (heap w)" and "handle_exec S df w = (r, w')"
  shows "heap w' ! df = heap w ! df \<and>
         take (length (heap w)) (heap w') = heap w \<and>
         (case r of
            Inl e \<Rightarrow> handle S (heap w ! df) = Inl e
          | Inr out \<Rightarrow> out \<noteq> df \<and> out < length (heap w') \<and>
              handle S (heap w ! df) = Inr (heap w' ! out))"
proof -
  have frame: "take (length (heap w)) (heap w') = heap w \<and>
         (case r of
            Inl e \<Rightarrow> handle S (heap w ! df) = Inl e
          | Inr out \<Rightarrow> length (heap w) \<le> out \<and> out < length (heap w') \<and>
              handle S (heap w ! df) = Inr (heap w' ! out))"
  proof (cases S)
    case (Drop self)
    with assms(2) show ?thesis using drop_exec_frame [of self df w r w']
      by (auto split: sum.splits)
  next
    case (Fill self)
    with assms(2) show ?thesis using fill_exec_frame [of self df w r w']
      by (auto split: sum.splits)
  qed
  then have old: "take (length (heap w)) (heap w') = heap w" by simp
  have "heap w' ! df = take (length (heap w)) (heap w') ! df"
    using assms(1) by simp
  with old have same: "heap w' ! df = heap w ! df" by simp
  from frame assms(1) same old show ?thesis
    by (auto split: sum.splits)
qed

theorem handle_leaves_input_unchanged_witness:
  "heap (snd (handle_exec (Fill \<lparr>fill_method = ''mean'', fill_value = None\<rparr>) 0
      \<lparr>heap = [\<lparr>index = [0, 1], columns = [(''area'', NumCol [Some 4, None])]\<rparr>], logged = []\<rparr>)) =
     [\<lparr>index = [0, 1], columns = [(''area'', NumCol [Some 4, None])]\<rparr>,
      \<lparr>index = [0, 1], columns = [(''area'', NumCol [Some 4, Some 4])]\<rparr>] \<and>
   fst (handle_exec (Fill \<lparr>fill_method = ''mean'', fill_value = None\<rparr>) 0
      \<lparr>heap = [\<lparr>index = [0, 1], columns = [(''area'', NumCol [Some 4, None])]\<rparr>], logged = []\<rparr>) = Inr 1 \<and>
   heap (snd (handle_exec (Fill \<lparr>fill_method = ''mean'', fill_value = None\<rparr>) 0
      \<lparr>heap = [\<lparr>index = [0, 1], columns = [(''area'', NumCol [Some 4, None])]\<rparr>], logged = []\<rparr>)) ! 0 =
     heap \<lparr>heap = [\<lparr>index = [0, 1], columns = [(''area'', NumCol [Some 4, None])]\<rparr>], logged = []\<rparr> ! 0"
proof -
  let ?w = "\<lparr>heap = [\<lparr>index = [0, 1], columns = [(''area'', NumCol [Some 4, None])]\<rparr>], logged = []\<rparr>"
  let ?S = "Fill \<lparr>fill_method = ''mean'', fill_value = None\<rparr>"
  have live: "0 < length (heap ?w)" by simp
  have run: "handle_exec ?S 0 ?w = (fst (handle_exec ?S 0 ?w), snd (handle_exec ?S 0 ?w))"
    by simp
  have h: "heap (snd (handle_exec ?S 0 ?w)) =
     [\<lparr>index = [0, 1], columns = [(''area'', NumCol [Some 4, None])]\<rparr>,
      \<lparr>index = [0, 1], columns = [(''area'', NumCol [Some 4, Some 4])]\<rparr>]"
    by code_simp
  have r: "fst (handle_exec ?S 0 ?w) = Inr 1"
    by code_simp
  from handle_leaves_input_unchanged [OF live run] h r show ?thesis
    by blast
qed

end
